theory Spec2Isabelle
  imports Complex_Main "HOL-Library.AList"
begin

section \<open>In-process LRU cache with time-to-live (app/cache.py)\<close>

text \<open>
  The cache of \<^verbatim>\<open>TTLCache\<close> is an ordered dictionary from keys to pairs of a value and an
  expiry time, the oldest entry first. It is modelled as an association list in insertion
  order; \<^verbatim>\<open>time.time()\<close> is a parameter of every operation that reads the clock, and
  times are real numbers. The lock makes every operation atomic, so an operation is a
  function from the state before to the state after.
\<close>

datatype py_error = KeyError | OverflowError












section \<open>Retrying HTTP client (app/api_client.py)\<close>

text \<open>
  JSON values as Python decodes them. A number is a real (truth of a number only asks
  whether it is zero); a dictionary is its list of items in insertion order.
\<close>

datatype json =
  JNull | JBool bool | JNum real | JStr string | JList "json list" | JDict "(string \<times> json) list"

text \<open>\<^verbatim>\<open>sub in s\<close> for strings.\<close>

fun startswith :: "string \<Rightarrow> string \<Rightarrow> bool" where
  "startswith s [] = True"
| "startswith [] (p # ps) = False"
| "startswith (c # s) (p # ps) = (c = p \<and> startswith s ps)"

fun contains :: "string \<Rightarrow> string \<Rightarrow> bool" where
  "contains [] sub = (sub = [])"
| "contains (c # s) sub = (startswith (c # s) sub \<or> contains s sub)"

text \<open>Decimal digits of a natural number, as \<^verbatim>\<open>str\<close> and an f-string print it.\<close>

fun str_nat :: "nat \<Rightarrow> string" where
  "str_nat n = (if n < 10 then [char_of (48 + n)] else str_nat (n div 10) @ [char_of (48 + n mod 10)])"

declare str_nat.simps [simp del]

text \<open>
  The exceptions the handlers of \<^verbatim>\<open>make_request\<close> tell apart, each with the text
  \<^verbatim>\<open>str(e)\<close>; \<^verbatim>\<open>HTTPStatusError\<close> carries the status code of its response, and
  \<open>Exception\<close> is any exception of another class.
\<close>

datatype httpx_exn =
  TimeoutException string | HTTPStatusError nat string | RequestError string | Exception string

text \<open>
  What \<^verbatim>\<open>int(response.headers.get("Retry-After", 60))\<close> meets: no header, a header
  that \<^verbatim>\<open>int\<close> converts, or one on which \<^verbatim>\<open>int\<close> raises \<^verbatim>\<open>ValueError\<close> with the given
  text (an HTTP date, for example).
\<close>

datatype retry_after_header = Absent | Seconds int | Malformed string

record response =
  status_code :: nat
  retry_after :: retry_after_header
  content_type :: string
  json_body :: "string + json"
  text_body :: string
  status_error :: string

text \<open>
  \<open>content_type\<close> is \<^verbatim>\<open>headers.get("content-type", "")\<close>; \<open>json_body\<close> is what
  \<^verbatim>\<open>response.json()\<close> does (\<open>Inl\<close> the text of the exception it raises);
  \<open>status_error\<close> is the text of the \<^verbatim>\<open>HTTPStatusError\<close> that \<^verbatim>\<open>raise_for_status\<close>
  raises. One HTTP call either raises or gives a response.
\<close>

datatype outcome = Raises httpx_exn | Responds response

text \<open>
  The effects of a request, in order: a call of \<^verbatim>\<open>_rate_limit\<close>, an HTTP call, and a call
  \<^verbatim>\<open>asyncio.sleep(d)\<close> that returns, recorded with its argument.
\<close>

datatype event = RateLimit | HttpGet string | HttpPost string | Sleep real

definition MAX_RETRIES :: int where "MAX_RETRIES = 3"
definition RETRY_DELAY_BASE :: real where "RETRY_DELAY_BASE = 1"
definition RETRY_DELAY_MAX :: real where "RETRY_DELAY_MAX = 10"

text \<open>
  \<^verbatim>\<open>RETRY_DELAY_BASE * (2 ** attempt)\<close> multiplies a float by an integer: Python converts
  the integer to a float first and raises \<^verbatim>\<open>OverflowError\<close> when it is \<open>2 ^ 1024\<close> or
  more. Below that, a power of two and its minimum with 10 are exact floats.
\<close>

definition calculate_retry_delay :: "nat \<Rightarrow> py_error + real" where
  "calculate_retry_delay attempt =
     (if 1024 \<le> attempt then Inl OverflowError
      else Inr (min (RETRY_DELAY_BASE * 2 ^ attempt) RETRY_DELAY_MAX))"

definition add_api_token :: "string \<Rightarrow> string \<Rightarrow> string" where
  "add_api_token key url =
     (if \<not> contains url ''api_token=''
      then url @ (if contains url ''?'' then ''&'' else ''?'') @ ''api_token='' @ key
      else url)"

definition error_dict :: "string \<Rightarrow> json" where
  "error_dict msg = JDict [(''error'', JStr msg)]"

text \<open>\<^verbatim>\<open>raise_for_status\<close> returns on a 2xx status and raises on every other.\<close>

definition is_success :: "nat \<Rightarrow> bool" where
  "is_success status = (200 \<le> status \<and> status \<le> 299)"

text \<open>
  The body of the \<^verbatim>\<open>try\<close> after the response has arrived: it returns a payload,
  continues the loop (after the sleep of a 429), or raises. \<^verbatim>\<open>asyncio.sleep(retry_after)\<close>
  returns at once on a delay that is not positive and adds any other delay to the clock
  of the loop, a float: Python converts the integer to a float, rounding to 53 bits, and
  raises \<^verbatim>\<open>OverflowError\<close> when the rounded value is \<open>2 ^ 1024\<close>, that is from
  \<open>2 ^ 1024 - 2 ^ 970\<close> on. The sleep is inside the \<^verbatim>\<open>try\<close>.
\<close>

datatype flow = Return json | Continue | Raise httpx_exn

definition float_int_limit :: int where
  "float_int_limit = 2 ^ 1024 - 2 ^ 970"

definition on_response :: "response \<Rightarrow> flow \<times> event list" where
  "on_response r =
     (if status_code r = 429 then
        (case retry_after r of
           Malformed m \<Rightarrow> (Raise (Exception m), [])
         | Absent \<Rightarrow> (Continue, [Sleep 60])
         | Seconds n \<Rightarrow>
             if float_int_limit \<le> n
             then (Raise (Exception ''int too large to convert to float''), [])
             else (Continue, [Sleep (real_of_int n)]))
      else if \<not> is_success (status_code r) then
        (Raise (HTTPStatusError (status_code r) (status_error r)), [])
      else if contains (content_type r) ''application/json'' then
        (case json_body r of Inl m \<Rightarrow> (Raise (Exception m), []) | Inr j \<Rightarrow> (Return j, []))
      else if contains (content_type r) ''text/csv'' \<or> contains (content_type r) ''text/plain'' then
        (Return (JDict [(''csv'', JStr (text_body r))]), [])
      else
        (case json_body r of
           Inr j \<Rightarrow> (Return j, [])
         | Inl m \<Rightarrow> (Return (JDict [(''text'', JStr (text_body r))]), [])))"

definition try_body :: "outcome \<Rightarrow> flow \<times> event list" where
  "try_body out = (case out of Raises e \<Rightarrow> (Raise e, []) | Responds r \<Rightarrow> on_response r)"

text \<open>
  The \<^verbatim>\<open>except\<close> clauses: the new \<^verbatim>\<open>last_error\<close> (its text), and the value returned
  at once, if the clause returns.
\<close>

fun handler :: "httpx_exn \<Rightarrow> json option \<times> string" where
  "handler (TimeoutException m) = (None, m)"
| "handler (HTTPStatusError status m) =
     (if 400 \<le> status \<and> status < 500 \<and> status \<noteq> 429
      then (Some (error_dict (''HTTP '' @ str_nat status @ '': '' @ m)), m)
      else (None, m))"
| "handler (RequestError m) = (None, m)"
| "handler (Exception m) = (Some (error_dict m), m)"

text \<open>
  The loop \<^verbatim>\<open>for attempt in range(retries + 1)\<close> over the attempts still to come.
  \<open>send attempt\<close> is what the HTTP call of that iteration does. The result is the
  value returned (\<open>Inr\<close>) or the exception that leaves the function (\<open>Inl\<close>), with the
  effects so far.
\<close>

fun attempts ::
  "(nat \<Rightarrow> outcome) \<Rightarrow> string \<Rightarrow> int \<Rightarrow> string option \<Rightarrow> nat list \<Rightarrow> event list
     \<Rightarrow> (py_error + json) \<times> event list" where
  "attempts send url retries last_error [] trace =
     (Inr (error_dict (case last_error of Some m \<Rightarrow> m
                       | None \<Rightarrow> ''Unknown error after retries'')), trace)"
| "attempts send url retries last_error (attempt # rest) trace =
     (let trace1 = trace @ [RateLimit, HttpGet url] in
      case try_body (send attempt) of
        (Return payload, evs) \<Rightarrow> (Inr payload, trace1 @ evs)
      | (Continue, evs) \<Rightarrow> attempts send url retries last_error rest (trace1 @ evs)
      | (Raise e, evs) \<Rightarrow>
          (case handler e of
             (Some result, m) \<Rightarrow> (Inr result, trace1 @ evs)
           | (None, m) \<Rightarrow>
               if int attempt < retries then
                 (case calculate_retry_delay attempt of
                    Inl err \<Rightarrow> (Inl err, trace1 @ evs)
                  | Inr delay \<Rightarrow>
                      attempts send url retries (Some m) rest (trace1 @ evs @ [Sleep delay]))
               else attempts send url retries (Some m) rest (trace1 @ evs)))"

text \<open>
  \<^verbatim>\<open>make_request(url, timeout, retries)\<close>. \<open>key\<close> is \<^verbatim>\<open>EODHD_API_KEY\<close> of the
  configuration module; \<open>get url timeout attempt\<close> is the HTTP layer.
\<close>

definition make_request ::
  "string \<Rightarrow> (string \<Rightarrow> real \<Rightarrow> nat \<Rightarrow> outcome) \<Rightarrow> string \<Rightarrow> real \<Rightarrow> int
     \<Rightarrow> (py_error + json) \<times> event list" where
  "make_request key get url timeout retries =
     (let url' = add_api_token key url
      in attempts (get url' timeout) url' retries None [0..<nat (retries + 1)] [])"

text \<open>
  \<^verbatim>\<open>make_post_request\<close>: one attempt, and a single handler for every exception.
\<close>

definition str_exn :: "httpx_exn \<Rightarrow> string" where
  "str_exn e = (case e of TimeoutException m \<Rightarrow> m | HTTPStatusError s m \<Rightarrow> m
                | RequestError m \<Rightarrow> m | Exception m \<Rightarrow> m)"

definition post_try_body :: "outcome \<Rightarrow> httpx_exn + json" where
  "post_try_body out =
     (case out of
        Raises e \<Rightarrow> Inl e
      | Responds r \<Rightarrow>
          if \<not> is_success (status_code r)
          then Inl (HTTPStatusError (status_code r) (status_error r))
          else (case json_body r of Inl m \<Rightarrow> Inl (Exception m) | Inr j \<Rightarrow> Inr j))"

definition make_post_request ::
  "string \<Rightarrow> (string \<Rightarrow> 'd \<Rightarrow> 'j \<Rightarrow> real \<Rightarrow> outcome) \<Rightarrow> string \<Rightarrow> 'd \<Rightarrow> 'j \<Rightarrow> real
     \<Rightarrow> (py_error + json) \<times> event list" where
  "make_post_request key post url data json_data timeout =
     (let url' = add_api_token key url
      in (case post_try_body (post url' data json_data timeout) of
            Inr j \<Rightarrow> (Inr j, [RateLimit, HttpPost url'])
          | Inl e \<Rightarrow> (Inr (error_dict (str_exn e)), [RateLimit, HttpPost url'])))"

text \<open>The number of HTTP calls among the effects.\<close>

definition http_calls :: "event list \<Rightarrow> nat" where
  "http_calls trace = length (filter (\<lambda>e. case e of HttpGet u \<Rightarrow> True | HttpPost u \<Rightarrow> True | _ \<Rightarrow> False) trace)"

subsection \<open>HTTP layers used to evaluate the client\<close>

text \<open>
  A 429 without \<^verbatim>\<open>Retry-After\<close>, a 200 with a JSON body, a 503, and five HTTP layers:
  one answers the first call with the 429 and every later call with the 200, one does
  the same with a \<^verbatim>\<open>Retry-After\<close> that is an HTTP date, one with a \<^verbatim>\<open>Retry-After\<close> of
  \<open>2 ^ 1024 - 2 ^ 970\<close> seconds, one times out on every call, one answers every call
  with the 503.
\<close>

definition response_429 :: response where
  "response_429 = \<lparr>status_code = 429, retry_after = Absent, content_type = ''text/html'',
     json_body = Inl ''Expecting value'', text_body = ''slow down'',
     status_error = ''Client error 429 Too Many Requests''\<rparr>"

definition response_200 :: response where
  "response_200 = \<lparr>status_code = 200, retry_after = Absent, content_type = ''application/json'',
     json_body = Inr (JDict [(''close'', JNum 185)]), text_body = ''{\"close\": 185}'',
     status_error = ''''\<rparr>"

definition response_503 :: response where
  "response_503 = \<lparr>status_code = 503, retry_after = Absent, content_type = ''text/html'',
     json_body = Inl ''Expecting value'', text_body = ''unavailable'',
     status_error = ''Server error 503 Service Unavailable''\<rparr>"

definition rate_limited_then_ok :: "string \<Rightarrow> real \<Rightarrow> nat \<Rightarrow> outcome" where
  "rate_limited_then_ok url timeout attempt =
     (if attempt = 0 then Responds response_429 else Responds response_200)"

definition rate_limited_until_date :: "string \<Rightarrow> real \<Rightarrow> nat \<Rightarrow> outcome" where
  "rate_limited_until_date url timeout attempt =
     (if attempt = 0
      then Responds (response_429\<lparr>retry_after := Malformed ''invalid literal for int()''\<rparr>)
      else Responds response_200)"

definition rate_limited_for_ages :: "string \<Rightarrow> real \<Rightarrow> nat \<Rightarrow> outcome" where
  "rate_limited_for_ages url timeout attempt =
     (if attempt = 0
      then Responds (response_429\<lparr>retry_after := Seconds float_int_limit\<rparr>)
      else Responds response_200)"

definition always_timeout :: "string \<Rightarrow> real \<Rightarrow> nat \<Rightarrow> outcome" where
  "always_timeout url timeout attempt = Raises (TimeoutException ''timed out'')"

definition always_503 :: "string \<Rightarrow> real \<Rightarrow> nat \<Rightarrow> outcome" where
  "always_503 url timeout attempt = Responds response_503"

section \<open>Distributed cache with in-process fallback (app/redis_cache.py)\<close>

text \<open>
  A call to the Redis client either raises (with the text of the exception) or replies.
  Each operation of \<^verbatim>\<open>RedisCache\<close> takes the outcome of the client calls it may make as an
  argument. \<^verbatim>\<open>_fallback_cache\<close> is a dictionary from full keys to pairs of a value and an
  expiry time, kept as an association list. The hash of long keys (\<open>sha256\<close>), the decoder
  \<^verbatim>\<open>json.loads\<close> and the encoder \<^verbatim>\<open>json.dumps\<close> (\<open>None\<close> where they raise) are
  parameters.
\<close>

datatype 'a reply = Fails string | Reply 'a

record 'v RedisCache =
  prefix :: string
  redis_default_ttl :: int
  client :: bool
  is_connected :: bool
  fallback_cache :: "(string \<times> 'v \<times> real) list"

definition make_key :: "'v RedisCache \<Rightarrow> string \<Rightarrow> string" where
  "make_key c key = prefix c @ key"

definition hash_key :: "(string \<Rightarrow> string) \<Rightarrow> string \<Rightarrow> string" where
  "hash_key sha256 key = (if length key > 200 then sha256 key else key)"

definition fallback_get :: "'v RedisCache \<Rightarrow> real \<Rightarrow> string \<Rightarrow> 'v option \<times> 'v RedisCache" where
  "fallback_get c now key =
     (case map_of (fallback_cache c) key of
        Some (val, expires) \<Rightarrow>
          if now < expires then (Some val, c)
          else (None, c\<lparr>fallback_cache := AList.delete key (fallback_cache c)\<rparr>)
      | None \<Rightarrow> (None, c))"

definition fallback_set :: "'v RedisCache \<Rightarrow> real \<Rightarrow> string \<Rightarrow> 'v \<Rightarrow> int \<Rightarrow> bool \<times> 'v RedisCache" where
  "fallback_set c now key val ttl =
     (True, c\<lparr>fallback_cache := AList.update key (val, now + real_of_int ttl) (fallback_cache c)\<rparr>)"

text \<open>
  \<^verbatim>\<open>get\<close>: the client replies the stored text or nothing; an empty text is falsy and
  counts as a miss. An exception of the client or of the decoder goes to the fallback.
\<close>

definition RedisCache_get ::
  "'v RedisCache \<Rightarrow> (string \<Rightarrow> string) \<Rightarrow> (string \<Rightarrow> 'v option) \<Rightarrow> real \<Rightarrow> string
     \<Rightarrow> string option reply \<Rightarrow> 'v option \<times> 'v RedisCache" where
  "RedisCache_get c sha256 loads now key remote =
     (let full_key = make_key c (hash_key sha256 key) in
      if is_connected c \<and> client c then
        (case remote of
           Reply stored \<Rightarrow>
             (case stored of
                None \<Rightarrow> (None, c)
              | Some s \<Rightarrow>
                  if s = [] then (None, c)
                  else (case loads s of
                          Some val \<Rightarrow> (Some val, c)
                        | None \<Rightarrow> fallback_get c now full_key))
         | Fails e \<Rightarrow> fallback_get c now full_key)
      else fallback_get c now full_key)"

definition RedisCache_set ::
  "'v RedisCache \<Rightarrow> (string \<Rightarrow> string) \<Rightarrow> ('v \<Rightarrow> string option) \<Rightarrow> real \<Rightarrow> string \<Rightarrow> 'v
     \<Rightarrow> int option \<Rightarrow> unit reply \<Rightarrow> bool \<times> 'v RedisCache" where
  "RedisCache_set c sha256 dumps now key val ttl remote =
     (let full_key = make_key c (hash_key sha256 key);
          ttl' = (case ttl of None \<Rightarrow> redis_default_ttl c
                  | Some t \<Rightarrow> if t = 0 then redis_default_ttl c else t)
      in case dumps val of
           None \<Rightarrow> (False, c)
         | Some serialized \<Rightarrow>
             if is_connected c \<and> client c then
               (case remote of
                  Reply u \<Rightarrow> (True, c)
                | Fails e \<Rightarrow> fallback_set c now full_key val ttl')
             else fallback_set c now full_key val ttl')"

definition RedisCache_delete ::
  "'v RedisCache \<Rightarrow> (string \<Rightarrow> string) \<Rightarrow> string \<Rightarrow> unit reply \<Rightarrow> bool \<times> 'v RedisCache" where
  "RedisCache_delete c sha256 key remote =
     (let full_key = make_key c (hash_key sha256 key) in
      if is_connected c \<and> client c then
        (case remote of
           Reply u \<Rightarrow> (True, c)
         | Fails e \<Rightarrow> (False, c))
      else (True, c\<lparr>fallback_cache := AList.delete full_key (fallback_cache c)\<rparr>))"

text \<open>
  \<^verbatim>\<open>clear_prefix\<close>: \<open>scan\<close> is the outcome of iterating \<^verbatim>\<open>scan_iter\<close>, \<open>del\<close> that of the
  \<^verbatim>\<open>delete\<close> call made when keys were found.
\<close>

definition RedisCache_clear_prefix ::
  "'v RedisCache \<Rightarrow> string \<Rightarrow> string list reply \<Rightarrow> unit reply \<Rightarrow> nat \<times> 'v RedisCache" where
  "RedisCache_clear_prefix c pfx scan del =
     (let full_prefix = make_key c pfx in
      if is_connected c \<and> client c then
        (case scan of
           Fails e \<Rightarrow> (0, c)
         | Reply keys \<Rightarrow>
             if keys \<noteq> [] then
               (case del of Fails e \<Rightarrow> (0, c) | Reply u \<Rightarrow> (length keys, c))
             else (length keys, c))
      else
        (let keys_to_delete = [k. (k, _) \<leftarrow> fallback_cache c, startswith k full_prefix]
         in (length keys_to_delete,
             c\<lparr>fallback_cache := foldl (\<lambda>es k. AList.delete k es) (fallback_cache c) keys_to_delete\<rparr>)))"

definition RedisCache_exists ::
  "'v RedisCache \<Rightarrow> (string \<Rightarrow> string) \<Rightarrow> real \<Rightarrow> string \<Rightarrow> nat reply \<Rightarrow> bool \<times> 'v RedisCache" where
  "RedisCache_exists c sha256 now key remote =
     (let full_key = make_key c (hash_key sha256 key) in
      if is_connected c \<and> client c then
        (case remote of
           Reply n \<Rightarrow> (n > 0, c)
         | Fails e \<Rightarrow> (map_of (fallback_cache c) full_key \<noteq> None, c))
      else
        (case map_of (fallback_cache c) full_key of
           Some (val, expires) \<Rightarrow> (now < expires, c)
         | None \<Rightarrow> (False, c)))"

subsection \<open>A connected cache whose remote store fails\<close>

definition connected_cache :: "json RedisCache" where
  "connected_cache = \<lparr>prefix = ''eodhd:'', redis_default_ttl = 300, client = True,
     is_connected = True, fallback_cache = []\<rparr>"

definition dumps_fixed :: "json \<Rightarrow> string option" where
  "dumps_fixed v = Some ''{\"close\": 185}''"

definition stale_cache :: "json RedisCache" where
  "stale_cache = snd (RedisCache_set connected_cache id dumps_fixed 0 ''quote:AAPL''
     (JDict [(''close'', JNum 185)]) None (Fails ''Connection refused''))"

section \<open>Batch processing (app/batch.py)\<close>

text \<open>Python's truth value of a decoded JSON value.\<close>

fun truthy :: "json \<Rightarrow> bool" where
  "truthy JNull = False"
| "truthy (JBool b) = b"
| "truthy (JNum x) = (x \<noteq> 0)"
| "truthy (JStr s) = (s \<noteq> [])"
| "truthy (JList xs) = (xs \<noteq> [])"
| "truthy (JDict kvs) = (kvs \<noteq> [])"

text \<open>
  The test \<^verbatim>\<open>data and not (isinstance(data, dict) and data.get("error"))\<close> of the
  aggregation loop, and the message of the other branch:
  \<^verbatim>\<open>data.get("error", "Unknown error") if isinstance(data, dict) else "No data"\<close>, put
  into an f-string. \<open>str_json\<close> is Python's \<^verbatim>\<open>str\<close> on a value that is not a string.
\<close>

definition counts_as_success :: "json \<Rightarrow> bool" where
  "counts_as_success data =
     (truthy data \<and>
      \<not> (case data of
           JDict kvs \<Rightarrow> (case map_of kvs ''error'' of Some v \<Rightarrow> truthy v | None \<Rightarrow> False)
         | _ \<Rightarrow> False))"

definition error_msg :: "(json \<Rightarrow> string) \<Rightarrow> json \<Rightarrow> string" where
  "error_msg str_json data =
     (case data of
        JDict kvs \<Rightarrow>
          (case map_of kvs ''error'' of
             Some (JStr s) \<Rightarrow> s
           | Some v \<Rightarrow> str_json v
           | None \<Rightarrow> ''Unknown error'')
      | _ \<Rightarrow> ''No data'')"

text \<open>
  A batch item is a dictionary from strings to strings. Its identifier is
  \<^verbatim>\<open>item.get("id", str(item))\<close>; \<open>str_item\<close> is Python's \<^verbatim>\<open>str\<close> on the dictionary.
\<close>

type_synonym item = "(string \<times> string) list"

definition identifier_of :: "(item \<Rightarrow> string) \<Rightarrow> item \<Rightarrow> string" where
  "identifier_of str_item item =
     (case map_of item ''id'' of Some i \<Rightarrow> i | None \<Rightarrow> str_item item)"

text \<open>
  The first loop of \<^verbatim>\<open>process\<close> builds one task per item, a pair of the URL and the
  identifier. \<open>url_builder\<close> is the caller's function; where it raises (\<open>Inl\<close>), the
  exception leaves \<^verbatim>\<open>process\<close> before any task has run.
\<close>

fun build_tasks ::
  "(item \<Rightarrow> string) \<Rightarrow> (item \<Rightarrow> string + string) \<Rightarrow> item list
     \<Rightarrow> string + (string \<times> string) list" where
  "build_tasks str_item url_builder [] = Inr []"
| "build_tasks str_item url_builder (item # items) =
     (let identifier = identifier_of str_item item in
      case url_builder item of
        Inl e \<Rightarrow> Inl e
      | Inr url \<Rightarrow>
          (case build_tasks str_item url_builder items of
             Inl e \<Rightarrow> Inl e
           | Inr tasks \<Rightarrow> Inr ((url, identifier) # tasks)))"

text \<open>
  What a task can raise and \<^verbatim>\<open>gather\<close> collects: an instance of \<^verbatim>\<open>Exception\<close>, with
  its text, or the \<^verbatim>\<open>CancelledError\<close> of a cancelled task, which is a
  \<^verbatim>\<open>BaseException\<close> and not an \<^verbatim>\<open>Exception\<close>.
\<close>

datatype raised = RaisedException string | RaisedCancelledError

text \<open>
  \<^verbatim>\<open>_fetch_with_semaphore\<close>: \<open>request\<close> is what \<^verbatim>\<open>make_request(url)\<close> does for this
  task, its value or what is raised in the task.
  \<^verbatim>\<open>asyncio.gather(*tasks, return_exceptions=True)\<close> gives the outcomes in the order of
  the tasks, the exception object in place of the value of a task that raised.
  \<open>request i\<close> is the behaviour of \<^verbatim>\<open>make_request\<close> inside task \<open>i\<close>.
\<close>

definition fetch_with_semaphore ::
  "(string \<Rightarrow> raised + json) \<Rightarrow> string \<Rightarrow> string \<Rightarrow> raised + (string \<times> json)" where
  "fetch_with_semaphore request url identifier =
     (case request url of Inl e \<Rightarrow> Inl e | Inr result \<Rightarrow> Inr (identifier, result))"

definition gather ::
  "(nat \<Rightarrow> string \<Rightarrow> raised + json) \<Rightarrow> (string \<times> string) list
     \<Rightarrow> (raised + (string \<times> json)) list" where
  "gather request tasks =
     map (\<lambda>(i, (url, identifier)). fetch_with_semaphore (request i) url identifier)
       (zip [0..<length tasks] tasks)"

text \<open>
  The aggregation loop. \<^verbatim>\<open>success\<close> is a dictionary: an assignment under a key
  already there replaces its value. A result that is an \<^verbatim>\<open>Exception\<close> goes to the
  errors with its text, a result that is a dictionary is looked into, and any other
  result, the \<^verbatim>\<open>CancelledError\<close>, matches neither branch and is passed over.
\<close>

fun classify ::
  "(json \<Rightarrow> string) \<Rightarrow> (raised + (string \<times> json)) list \<Rightarrow> (string \<times> json) list \<Rightarrow> string list
     \<Rightarrow> (string \<times> json) list \<times> string list" where
  "classify str_json [] success errs = (success, errs)"
| "classify str_json (Inl (RaisedException e) # rs) success errs =
     classify str_json rs success (errs @ [e])"
| "classify str_json (Inl RaisedCancelledError # rs) success errs =
     classify str_json rs success errs"
| "classify str_json (Inr (identifier, data) # rs) success errs =
     (if counts_as_success data
      then classify str_json rs (AList.update identifier data success) errs
      else classify str_json rs success
             (errs @ [identifier @ '': '' @ error_msg str_json data]))"

record batch_result =
  results :: "(string \<times> json) list"
  count :: nat
  total :: nat
  errors :: "string list option"

definition aggregate ::
  "(json \<Rightarrow> string) \<Rightarrow> item list \<Rightarrow> (raised + (string \<times> json)) list \<Rightarrow> batch_result" where
  "aggregate str_json items rs =
     (let (success, errs) = classify str_json rs [] []
      in \<lparr>results = success, count = length success, total = length items,
          errors = (if errs \<noteq> [] then Some errs else None)\<rparr>)"

definition process ::
  "(item \<Rightarrow> string) \<Rightarrow> (json \<Rightarrow> string) \<Rightarrow> (nat \<Rightarrow> string \<Rightarrow> raised + json) \<Rightarrow> item list
     \<Rightarrow> (item \<Rightarrow> string + string) \<Rightarrow> string + batch_result" where
  "process str_item str_json request items url_builder =
     (case build_tasks str_item url_builder items of
        Inl e \<Rightarrow> Inl e
      | Inr tasks \<Rightarrow> Inr (aggregate str_json items (gather request tasks)))"


text \<open>Whether a gathered outcome goes to the successes.\<close>

definition succeeded :: "raised + (string \<times> json) \<Rightarrow> bool" where
  "succeeded x = (case x of Inl e \<Rightarrow> False | Inr (identifier, data) \<Rightarrow> counts_as_success data)"



subsection \<open>Batches used to evaluate the processor\<close>

text \<open>
  The URL builder of \<^verbatim>\<open>batch_quotes\<close> (\<^verbatim>\<open>item['symbol']\<close> raises \<^verbatim>\<open>KeyError\<close> on an item
  without that key), stand-ins for \<^verbatim>\<open>str\<close> that the items below never reach, a request
  that always returns a quote, one that always returns the error dictionary of a failure
  whose text is empty, one that raises in the second task, and one that is cancelled in
  the second task.
\<close>

definition quotes_url_builder :: "item \<Rightarrow> string + string" where
  "quotes_url_builder item =
     (case map_of item ''symbol'' of
        None \<Rightarrow> Inl ''symbol''
      | Some s \<Rightarrow> Inr (''https://eodhd.com/api/real-time/'' @ s @ ''?fmt=json''))"

definition str_unused :: "'a \<Rightarrow> string" where
  "str_unused x = ''''"


definition empty_error_request :: "nat \<Rightarrow> string \<Rightarrow> raised + json" where
  "empty_error_request i url = Inr (JDict [(''error'', JStr [])])"


definition second_cancelled :: "nat \<Rightarrow> string \<Rightarrow> raised + json" where
  "second_cancelled i url =
     (if i = 1 then Inl RaisedCancelledError else Inr (JDict [(''close'', JNum 185)]))"

definition quote_item :: "string \<Rightarrow> item" where
  "quote_item s = [(''id'', s), (''symbol'', s)]"

text \<open>The identifiers of the gathered outcomes that go to the successes, in order.\<close>

definition success_ids :: "(raised + (string \<times> json)) list \<Rightarrow> string list" where
  "success_ids rs =
     concat (map (\<lambda>x. case x of Inl e \<Rightarrow> []
                       | Inr (identifier, data) \<Rightarrow> if counts_as_success data then [identifier] else []) rs)"

section \<open>OAuth token validation (app/oauth.py)\<close>

record TokenInfo =
  active :: bool
  subject :: "string option"
  client_id :: "string option"
  scopes :: "string list"
  expires_at :: "int option"
  issued_at :: "int option"

definition TokenInfo_default :: TokenInfo where
  "TokenInfo_default = \<lparr>active = False, subject = None, client_id = None, scopes = [],
     expires_at = None, issued_at = None\<rparr>"

definition has_scope :: "TokenInfo \<Rightarrow> string \<Rightarrow> bool" where
  "has_scope info scope = (scope \<in> set (scopes info) \<or> ''full-access'' \<in> set (scopes info))"

definition is_expired :: "TokenInfo \<Rightarrow> real \<Rightarrow> bool" where
  "is_expired info now =
     (case expires_at info of None \<Rightarrow> False | Some t \<Rightarrow> now > real_of_int t)"

text \<open>
  Whitespace as \<^verbatim>\<open>str.split\<close>, \<^verbatim>\<open>str.strip\<close> and the pattern \<^verbatim>\<open>\s\<close> see it, for the
  characters up to 255: tab to carriage return, the four separators 28 to 31, the space,
  and 133 and 160.
\<close>

definition is_space :: "char \<Rightarrow> bool" where
  "is_space c =
     (let n = (of_char c :: nat)
      in (9 \<le> n \<and> n \<le> 13) \<or> (28 \<le> n \<and> n \<le> 32) \<or> n = 133 \<or> n = 160)"

fun split_ws :: "string \<Rightarrow> string \<Rightarrow> string list" where
  "split_ws [] w = (if w = [] then [] else [w])"
| "split_ws (c # cs) w =
     (if is_space c then (if w = [] then split_ws cs [] else w # split_ws cs [])
      else split_ws cs (w @ [c]))"

text \<open>
  The validator: the introspection URL, the TTL of its result cache and the cache, a
  dictionary from the hash of a token to the token's info and the time it was stored.
  \<open>cache_key\<close> stands for the first 32 hexadecimal digits of the SHA-256 of the token.
\<close>

record OAuthValidator =
  introspection_url :: string
  cache_ttl :: int
  token_cache :: "string \<rightharpoonup> TokenInfo \<times> real"

definition get_cached ::
  "OAuthValidator \<Rightarrow> (string \<Rightarrow> string) \<Rightarrow> real \<Rightarrow> string \<Rightarrow> TokenInfo option \<times> OAuthValidator" where
  "get_cached v cache_key now token =
     (let key = cache_key token in
      case token_cache v key of
        Some (info, cached_at) \<Rightarrow>
          if now - cached_at < real_of_int (cache_ttl v) then (Some info, v)
          else (None, v\<lparr>token_cache := (token_cache v)(key := None)\<rparr>)
      | None \<Rightarrow> (None, v))"

definition set_cached ::
  "OAuthValidator \<Rightarrow> (string \<Rightarrow> string) \<Rightarrow> real \<Rightarrow> string \<Rightarrow> TokenInfo \<Rightarrow> OAuthValidator" where
  "set_cached v cache_key now token info =
     v\<lparr>token_cache := (token_cache v)(cache_key token \<mapsto> (info, now))\<rparr>"

text \<open>
  What the POST to the introspection endpoint does: it raises, or it answers with a
  status and a body. The body either fails to decode or is the JSON object of RFC 7662,
  with the fields the code reads, each present or absent.
\<close>

record introspection_body =
  body_active :: "bool option"
  body_sub :: "string option"
  body_client_id :: "string option"
  body_scope :: "string option"
  body_exp :: "int option"
  body_iat :: "int option"

datatype introspection =
  IntrospectionRaises string | IntrospectionResponse nat "introspection_body option"

definition introspect_token :: "introspection \<Rightarrow> TokenInfo" where
  "introspect_token out =
     (case out of
        IntrospectionRaises e \<Rightarrow> TokenInfo_default
      | IntrospectionResponse status body \<Rightarrow>
          if status \<noteq> 200 then TokenInfo_default
          else (case body of
                  None \<Rightarrow> TokenInfo_default
                | Some data \<Rightarrow>
                    \<lparr>active = (case body_active data of None \<Rightarrow> False | Some a \<Rightarrow> a),
                     subject = body_sub data,
                     client_id = body_client_id data,
                     scopes = (case body_scope data of
                                 None \<Rightarrow> []
                               | Some s \<Rightarrow> if s = [] then [] else split_ws s []),
                     expires_at = body_exp data,
                     issued_at = body_iat data\<rparr>))"

text \<open>
  \<^verbatim>\<open>validate_token\<close>. The clock is read once in \<^verbatim>\<open>_get_cached\<close> (\<open>now\<close>) and once in
  \<^verbatim>\<open>_set_cached\<close>, after the introspection (\<open>stored_at\<close>).
\<close>

definition validate_token ::
  "OAuthValidator \<Rightarrow> (string \<Rightarrow> string) \<Rightarrow> introspection \<Rightarrow> real \<Rightarrow> real \<Rightarrow> string
     \<Rightarrow> TokenInfo \<times> OAuthValidator" where
  "validate_token v cache_key out now stored_at token =
     (case get_cached v cache_key now token of
        (Some cached, v') \<Rightarrow> (cached, v')
      | (None, v') \<Rightarrow>
          if introspection_url v' \<noteq> [] then
            (let info = introspect_token out
             in (info, set_cached v' cache_key stored_at token info))
          else (TokenInfo_default\<lparr>active := True, scopes := [''full-access'']\<rparr>, v'))"

section \<open>Authentication middleware (app/auth.py)\<close>

record AuthResult =
  authenticated :: bool
  user_id :: "string option"
  auth_method :: "string option"
  auth_scopes :: "string list"
  error :: "string option"
  error_description :: "string option"

definition AuthResult_default :: AuthResult where
  "AuthResult_default = \<lparr>authenticated = False, user_id = None, auth_method = None,
     auth_scopes = [], error = None, error_description = None\<rparr>"

record AuthMiddleware =
  allow_legacy_api_key :: bool
  allow_env_api_key :: bool

text \<open>
  \<^verbatim>\<open>re.match(r"Bearer\s+(.+)", header, re.IGNORECASE)\<close>: the first six characters are
  the word in any case; \<^verbatim>\<open>\s+\<close> takes \<open>j\<close> of the whitespace characters that follow, as
  many as it can, giving one back at a time while \<^verbatim>\<open>(.+)\<close> finds no character other than
  a newline at position \<open>j\<close>; the group is what follows up to a newline or the end.
\<close>

definition lower :: "char \<Rightarrow> char" where
  "lower c = (let n = (of_char c :: nat) in if 65 \<le> n \<and> n \<le> 90 then char_of (n + 32) else c)"

definition strip :: "string \<Rightarrow> string" where
  "strip s = rev (dropWhile is_space (rev (dropWhile is_space s)))"

definition bearer_match :: "string \<Rightarrow> string option" where
  "bearer_match header =
     (if map lower (take 6 header) = ''bearer'' then
        (let rest = drop 6 header;
             w = length (takeWhile is_space rest)
         in case find (\<lambda>j. j < length rest \<and> rest ! j \<noteq> CHR 0x0A) (rev [1..<Suc w]) of
              None \<Rightarrow> None
            | Some j \<Rightarrow> Some (takeWhile (\<lambda>c. c \<noteq> CHR 0x0A) (drop j rest)))
      else None)"

definition extract_bearer_token :: "string option \<Rightarrow> string option" where
  "extract_bearer_token authorization_header =
     (case authorization_header of
        None \<Rightarrow> None
      | Some header \<Rightarrow>
          if header = [] then None
          else (case bearer_match header of
                  Some matched \<Rightarrow> Some (strip matched)
                | None \<Rightarrow> None))"

text \<open>
  What the GET to the user endpoint does in \<^verbatim>\<open>validate_legacy_api_key\<close>: it raises, or
  it answers with a status and a body, of which the code reads \<^verbatim>\<open>str(data.get("id", ""))\<close>
  (\<open>None\<close> where decoding or reading the body raises).
\<close>

datatype user_api = UserApiRaises string | UserApiResponse nat "string option"

definition validate_legacy_api_key :: "user_api \<Rightarrow> string \<Rightarrow> AuthResult" where
  "validate_legacy_api_key out api_key =
     (case out of
        UserApiRaises e \<Rightarrow>
          AuthResult_default\<lparr>error := Some ''server_error'',
            error_description := Some ''Failed to validate API key''\<rparr>
      | UserApiResponse status body \<Rightarrow>
          if status = 200 then
            (case body of
               Some uid \<Rightarrow>
                 AuthResult_default\<lparr>authenticated := True, user_id := Some uid, auth_method :=
                   Some ''api_key'', auth_scopes := [''full-access'']\<rparr>
             | None \<Rightarrow>
                 AuthResult_default\<lparr>error := Some ''server_error'',
                   error_description := Some ''Failed to validate API key''\<rparr>)
          else
            AuthResult_default\<lparr>error := Some ''invalid_token'',
              error_description := Some ''Invalid or expired API key''\<rparr>)"

text \<open>A string that may be \<^verbatim>\<open>None\<close> is truthy when it is there and not empty.\<close>

definition truthy_str :: "string option \<Rightarrow> bool" where
  "truthy_str s = (case s of None \<Rightarrow> False | Some x \<Rightarrow> x \<noteq> [])"

text \<open>
  \<^verbatim>\<open>authenticate\<close>. \<open>EODHD_API_KEY\<close> is the key of the configuration module; \<open>v\<close>,
  \<open>cache_key\<close>, \<open>introspected\<close>, \<open>now\<close> and \<open>stored_at\<close> are the validator and what its
  call meets; \<open>checked_at\<close> is the clock read by \<^verbatim>\<open>is_expired\<close>; \<open>user_api_out\<close> is what
  the user endpoint does. The validator is returned with the result, its cache updated.
  \<open>legacy_or_env\<close> is the part of the function after the bearer token, reached when the
  header gives no token or an empty one.
\<close>

definition legacy_or_env ::
  "AuthMiddleware \<Rightarrow> string option \<Rightarrow> user_api \<Rightarrow> string option \<Rightarrow> AuthResult" where
  "legacy_or_env m EODHD_API_KEY user_api_out api_token_param =
     (if allow_legacy_api_key m \<and> truthy_str api_token_param then
        (case api_token_param of
           Some api_key \<Rightarrow> validate_legacy_api_key user_api_out api_key
         | None \<Rightarrow> AuthResult_default)
      else if allow_env_api_key m \<and> truthy_str EODHD_API_KEY then
        AuthResult_default\<lparr>authenticated := True, auth_method := Some ''env'',
          auth_scopes := [''full-access'']\<rparr>
      else
        AuthResult_default\<lparr>error := Some ''missing_token'',
          error_description := Some ''No valid authentication credentials provided''\<rparr>)"

definition authenticate ::
  "AuthMiddleware \<Rightarrow> string option \<Rightarrow> OAuthValidator \<Rightarrow> (string \<Rightarrow> string) \<Rightarrow> introspection
     \<Rightarrow> real \<Rightarrow> real \<Rightarrow> real \<Rightarrow> user_api
     \<Rightarrow> string option \<Rightarrow> string option \<Rightarrow> string \<Rightarrow> AuthResult \<times> OAuthValidator" where
  "authenticate m EODHD_API_KEY v cache_key introspected now stored_at checked_at user_api_out
       authorization_header api_token_param transport =
     (if transport = ''stdio'' then
        (if allow_env_api_key m \<and> truthy_str EODHD_API_KEY
         then (AuthResult_default\<lparr>authenticated := True, auth_method := Some ''env'',
                 auth_scopes := [''full-access'']\<rparr>, v)
         else (AuthResult_default\<lparr>error := Some ''missing_token'',
                 error_description := Some ''EODHD_API_KEY environment variable not set''\<rparr>, v))
      else
        (case extract_bearer_token authorization_header of
           Some bearer_token \<Rightarrow>
             if bearer_token \<noteq> [] then
               (let (token_info, v') =
                      validate_token v cache_key introspected now stored_at bearer_token
                in if active token_info \<and> \<not> is_expired token_info checked_at
                   then (AuthResult_default\<lparr>authenticated := True,
                           user_id := subject token_info, auth_method := Some ''oauth'',
                           auth_scopes := scopes token_info\<rparr>, v')
                   else (AuthResult_default\<lparr>error := Some ''invalid_token'',
                           error_description := Some ''Token is invalid or expired''\<rparr>, v'))
             else (legacy_or_env m EODHD_API_KEY user_api_out api_token_param, v)
         | None \<Rightarrow> (legacy_or_env m EODHD_API_KEY user_api_out api_token_param, v)))"

subsection \<open>Validators and answers used to evaluate the middleware\<close>

text \<open>
  A stand-in for the hash of the cache key, a validator with introspection configured and
  one without, an introspection answer for an inactive token, a user endpoint that accepts
  any key, and the middleware with its default flags.
\<close>

definition key32 :: "string \<Rightarrow> string" where
  "key32 token = take 32 token"

definition introspecting_validator :: OAuthValidator where
  "introspecting_validator = \<lparr>introspection_url = ''https://eodhd.com/oauth/introspect'',
     cache_ttl = 300, token_cache = Map.empty\<rparr>"

definition development_validator :: OAuthValidator where
  "development_validator = \<lparr>introspection_url = '''', cache_ttl = 300, token_cache = Map.empty\<rparr>"

definition inactive_answer :: introspection where
  "inactive_answer = IntrospectionResponse 200
     (Some \<lparr>body_active = Some False, body_sub = Some ''user-1'', body_client_id = None,
            body_scope = Some ''read:eod'', body_exp = None, body_iat = None\<rparr>)"

definition accepting_user_api :: user_api where
  "accepting_user_api = UserApiResponse 200 (Some ''42'')"

definition default_middleware :: AuthMiddleware where
  "default_middleware = \<lparr>allow_legacy_api_key = True, allow_env_api_key = True\<rparr>"

section \<open>Verified properties\<close>

subsection \<open>TTLCache\<close>























subsection \<open>HTTP client\<close>

lemma http_calls_append [simp]: "http_calls (xs @ ys) = http_calls xs + http_calls ys"
  by (simp add: http_calls_def)

lemma http_calls_simps [simp]:
  "http_calls [] = 0"
  "http_calls (RateLimit # xs) = http_calls xs"
  "http_calls (Sleep d # xs) = http_calls xs"
  "http_calls (HttpGet u # xs) = Suc (http_calls xs)"
  "http_calls (HttpPost u # xs) = Suc (http_calls xs)"
  by (simp_all add: http_calls_def)

lemma try_body_calls [simp]: "try_body out = (f, evs) \<Longrightarrow> http_calls evs = 0"
  by (auto simp: try_body_def on_response_def split: outcome.splits if_splits
      retry_after_header.splits sum.splits)

lemma attempts_calls:
  "http_calls (snd (attempts send url r lst as trace)) \<le> http_calls trace + length as"
proof (induction as arbitrary: lst trace)
  case Nil
  show ?case by simp
next
  case (Cons a as)
  obtain f evs where tb: "try_body (send a) = (f, evs)" by (cases "try_body (send a)")
  have z: "http_calls evs = 0" using tb by simp
  have ih: "http_calls (snd (attempts send url r l as (trace @ [RateLimit, HttpGet url] @ evs @ more)))
        \<le> http_calls trace + Suc (length as)" if "http_calls more = 0" for l more
    using Cons.IH[of l "trace @ [RateLimit, HttpGet url] @ evs @ more"] z that by simp
  show ?case
  proof (cases f)
    case (Return j)
    then show ?thesis using tb z by simp
  next
    case Continue
    then show ?thesis using tb ih[of "[]" lst] by simp
  next
    case (Raise e)
    obtain res m where h: "handler e = (res, m)" by (cases "handler e")
    show ?thesis
    proof (cases res)
      case (Some j)
      then show ?thesis using tb Raise h z by simp
    next
      case None
      show ?thesis
      proof (cases "int a < r")
        case False
        then show ?thesis using tb Raise h None ih[of "[]" "Some m"] by simp
      next
        case True
        show ?thesis
        proof (cases "calculate_retry_delay a")
          case (Inl err)
          then show ?thesis using tb Raise h None True z by simp
        next
          case (Inr d)
          then show ?thesis using tb Raise h None True ih[of "[Sleep d]" "Some m"] by simp
        qed
      qed
    qed
  qed
qed

lemma make_request_calls:
  "http_calls (snd (make_request key get url timeout retries)) \<le> nat (retries + 1)"
  using attempts_calls[of "get (add_api_token key url) timeout" "add_api_token key url" retries None
      "[0..<nat (retries + 1)]" "[]"]
  by (simp add: make_request_def Let_def)

lemma attempts_429:
  assumes "send a = Responds r" and "status_code r = 429"
    and "retry_after r = Absent \<and> h = 60
       \<or> (\<exists>n. retry_after r = Seconds n \<and> n < float_int_limit \<and> h = real_of_int n)"
  shows "attempts send url retries lst (a # rest) trace
       = attempts send url retries lst rest (trace @ [RateLimit, HttpGet url, Sleep h])"
  using assms by (auto simp: try_body_def on_response_def)


lemma try_body_transient:
  assumes "send a = Raises (TimeoutException m) \<or> send a = Raises (RequestError m)
     \<or> (\<exists>r. send a = Responds r \<and> \<not> is_success (status_code r) \<and> status_code r \<noteq> 429
            \<and> \<not> (400 \<le> status_code r \<and> status_code r < 500) \<and> status_error r = m)"
  shows "\<exists>e. try_body (send a) = (Raise e, []) \<and> handler e = (None, m)"
  using assms by (auto simp: try_body_def on_response_def)

lemma attempts_transient:
  assumes "\<exists>e. try_body (send a) = (Raise e, []) \<and> handler e = (None, m)"
  shows "attempts send url retries lst (a # rest) trace =
     (if int a < retries then
        (case calculate_retry_delay a of
           Inl err \<Rightarrow> (Inl err, trace @ [RateLimit, HttpGet url])
         | Inr d \<Rightarrow> attempts send url retries (Some m) rest (trace @ [RateLimit, HttpGet url, Sleep d]))
      else attempts send url retries (Some m) rest (trace @ [RateLimit, HttpGet url]))"
  using assms by (auto split: sum.splits)

lemma attempts_overflow:
  assumes tr: "\<And>a. \<exists>e. try_body (send a) = (Raise e, []) \<and> handler e = (None, m)"
    and "1024 < retries" and "a \<le> 1024" and "1024 < n"
  shows "fst (attempts send url retries lst [a..<n] trace) = Inl OverflowError"
  using assms(3)
proof (induction "1024 - a" arbitrary: a lst trace)
  case 0
  then have a: "a = 1024" by simp
  have "[a..<n] = a # [Suc a..<n]" using a assms(4) by (simp add: upt_conv_Cons)
  then show ?case using a assms(2)
    by (simp add: attempts_transient[OF tr] calculate_retry_delay_def del: attempts.simps)
next
  case (Suc k)
  then have a: "a < 1024" by simp
  have u: "[a..<n] = a # [Suc a..<n]" using a assms(4) by (simp add: upt_conv_Cons)
  have k: "k = 1024 - Suc a" using Suc.hyps(2) by simp
  have le: "Suc a \<le> 1024" using a by simp
  have lt: "int a < retries" using a assms(2) by simp
  show ?case
    unfolding u using Suc.hyps(1)[OF k le] a lt
    by (simp add: attempts_transient[OF tr] calculate_retry_delay_def del: attempts.simps)
qed

text \<open>
  Claim C3. The claim says that \<^verbatim>\<open>make_request\<close> never raises, for every retry count.
  The delay before a retry is computed after the \<^verbatim>\<open>try\<close> statement, outside every
  handler, and \<^verbatim>\<open>1.0 * (2 ** 1024)\<close> raises \<^verbatim>\<open>OverflowError\<close>: with 1025 retries and
  an HTTP layer that times out on every call, the exception leaves the function.
\<close>

theorem make_request_raises_overflow:
  "fst (make_request ''KEY'' always_timeout ''https://eodhd.com/api/eod/AAPL.US'' 30 1025) = Inl OverflowError"
proof -
  have "fst (attempts (always_timeout U 30) U 1025 None [0..<1026] []) = Inl OverflowError" for U
    by (rule attempts_overflow[where m="''timed out''"])
       (simp_all add: always_timeout_def try_body_def)
  moreover have "nat (1025 + 1) = 1026" by simp
  ultimately show ?thesis by (simp add: make_request_def Let_def)
qed

lemma attempts_returns:
  assumes "\<forall>a\<in>set as. int a < retries \<longrightarrow> a < 1024"
  shows "\<exists>j. fst (attempts send url retries lst as trace) = Inr j"
  using assms
proof (induction as arbitrary: lst trace)
  case Nil
  show ?case by simp
next
  case (Cons a as)
  then have a: "int a < retries \<longrightarrow> a < 1024"
    and rest: "\<forall>a\<in>set as. int a < retries \<longrightarrow> a < 1024" by simp_all
  obtain f evs where tb: "try_body (send a) = (f, evs)" by (cases "try_body (send a)")
  show ?case
  proof (cases f)
    case (Return j)
    then show ?thesis using tb by simp
  next
    case Continue
    then show ?thesis using tb Cons.IH[OF rest] by simp
  next
    case (Raise e)
    obtain res m where h: "handler e = (res, m)" by (cases "handler e")
    show ?thesis
    proof (cases res)
      case (Some j)
      then show ?thesis using tb Raise h by simp
    next
      case None
      show ?thesis
      proof (cases "int a < retries")
        case True
        then have d: "calculate_retry_delay a = Inr (min (RETRY_DELAY_BASE * 2 ^ a) RETRY_DELAY_MAX)"
          using a by (simp add: calculate_retry_delay_def)
        show ?thesis using tb Raise h None True d Cons.IH[OF rest] by (simp add: Let_def)
      next
        case False
        then show ?thesis using tb Raise h None Cons.IH[OF rest] by (simp add: Let_def)
      qed
    qed
  qed
qed

lemma make_request_returns_below_overflow:
  assumes "retries \<le> 1024"
  shows "\<exists>j. fst (make_request key get url timeout retries) = Inr j"
proof -
  have "\<forall>a\<in>set [0..<nat (retries + 1)]. int a < retries \<longrightarrow> a < 1024" using assms by auto
  then show ?thesis unfolding make_request_def Let_def by (rule attempts_returns)
qed

lemma make_post_request_returns:
  "\<exists>j. fst (make_post_request key post url data json_data timeout) = Inr j"
  by (simp add: make_post_request_def Let_def split: sum.splits)


text \<open>
  With no retries, a first call answered 429 and a 200 waiting for the second call:
  the client sleeps 60 seconds and returns the error of exhausted retries after one
  HTTP call. The attempt answered 429 was the only one there was. With three retries
  and a 429 whose \<^verbatim>\<open>Retry-After\<close> is a date, the conversion to an integer raises inside the
  \<^verbatim>\<open>try\<close>: the client returns that error at once, with no sleep and no other attempt.
  The same happens with a \<^verbatim>\<open>Retry-After\<close> of \<open>2 ^ 1024 - 2 ^ 970\<close> seconds, on which the
  sleep raises.
\<close>

theorem make_request_429_budget_counterexample:
  "make_request ''KEY'' rate_limited_then_ok ''https://eodhd.com/api/eod/AAPL.US?fmt=json'' 30 0
     = (Inr (error_dict ''Unknown error after retries''),
        [RateLimit, HttpGet ''https://eodhd.com/api/eod/AAPL.US?fmt=json&api_token=KEY'', Sleep 60])
   \<and> http_calls (snd (make_request ''KEY'' rate_limited_then_ok
          ''https://eodhd.com/api/eod/AAPL.US?fmt=json'' 30 0)) = 1
   \<and> rate_limited_then_ok ''https://eodhd.com/api/eod/AAPL.US?fmt=json&api_token=KEY'' 30 1
       = Responds response_200
   \<and> make_request ''KEY'' rate_limited_until_date
        ''https://eodhd.com/api/eod/AAPL.US?fmt=json'' 30 3
     = (Inr (error_dict ''invalid literal for int()''),
        [RateLimit, HttpGet ''https://eodhd.com/api/eod/AAPL.US?fmt=json&api_token=KEY''])
   \<and> make_request ''KEY'' rate_limited_for_ages
        ''https://eodhd.com/api/eod/AAPL.US?fmt=json'' 30 3
     = (Inr (error_dict ''int too large to convert to float''),
        [RateLimit, HttpGet ''https://eodhd.com/api/eod/AAPL.US?fmt=json&api_token=KEY''])"
  by (simp add: make_request_def add_api_token_def try_body_def on_response_def
      rate_limited_then_ok_def rate_limited_until_date_def rate_limited_for_ages_def
      response_429_def upt_rec)

text \<open>
  Claim C1 (amended). An attempt answered 429 whose \<^verbatim>\<open>Retry-After\<close> is absent or an
  integer below \<open>2 ^ 1024 - 2 ^ 970\<close>, with another iteration of the loop still to come,
  sleeps that long (60 seconds when absent), adds no backoff delay, leaves \<^verbatim>\<open>last_error\<close>
  as it was and passes to that iteration; the attempt is one of the \<open>retries + 1\<close>
  iterations, so a request makes at most \<open>retries + 1\<close> HTTP calls whatever the answers.
\<close>

theorem make_request_429_sleeps_and_uses_attempt:
  "(send a = Responds r \<and> status_code r = 429 \<and> rest \<noteq> []
      \<and> (retry_after r = Absent \<and> h = 60
         \<or> retry_after r = Seconds n \<and> n < float_int_limit \<and> h = real_of_int n)
     \<longrightarrow> attempts send url retries lst (a # rest) trace
          = attempts send url retries lst rest (trace @ [RateLimit, HttpGet url, Sleep h]))
   \<and> http_calls (snd (make_request key get url' timeout retries')) \<le> nat (retries' + 1)"
proof (intro conjI impI)
  assume "send a = Responds r \<and> status_code r = 429 \<and> rest \<noteq> []
      \<and> (retry_after r = Absent \<and> h = 60
         \<or> retry_after r = Seconds n \<and> n < float_int_limit \<and> h = real_of_int n)"
  then show "attempts send url retries lst (a # rest) trace
          = attempts send url retries lst rest (trace @ [RateLimit, HttpGet url, Sleep h])"
    by (intro attempts_429) auto
next
  show "http_calls (snd (make_request key get url' timeout retries')) \<le> nat (retries' + 1)"
    by (rule make_request_calls)
qed

theorem make_request_429_sleeps_and_uses_attempt_witness:
  "rate_limited_then_ok ''u'' 30 0 = Responds response_429 \<and> status_code response_429 = 429
   \<and> [1::nat] \<noteq> [] \<and> retry_after response_429 = Absent
   \<and> attempts (rate_limited_then_ok ''u'' 30) ''u'' 3 None [0, 1] []
       = (Inr (JDict [(''close'', JNum 185)]),
          [RateLimit, HttpGet ''u'', Sleep 60, RateLimit, HttpGet ''u''])
   \<and> http_calls (snd (make_request ''KEY'' rate_limited_then_ok ''u'' 30 3)) \<le> 4"
  using make_request_429_sleeps_and_uses_attempt
    [where send="rate_limited_then_ok ''u'' 30" and a=0 and r=response_429 and rest="[1]"
       and h=60 and n=0 and url="''u''" and retries=3 and lst=None and trace="[]"
       and key="''KEY''" and get=rate_limited_then_ok and url'="''u''" and timeout=30
       and retries'=3]
  by (simp add: rate_limited_then_ok_def response_429_def response_200_def try_body_def
      on_response_def is_success_def)

text \<open>
  Claim C6. The claim gives the delay before the retry that follows attempt \<open>i\<close> as
  \<open>min (base * 2 ^ i) cap\<close>, which is 10 at \<open>i = 1024\<close>. The code computes no delay
  there: \<^verbatim>\<open>_calculate_retry_delay(1024)\<close> raises, and a request with 1025 retries whose
  calls are all answered 503 ends with that exception instead of a retry. The lemmas
  after this theorem show the classification and the delays below attempt 1024.
\<close>

theorem retry_delay_overflow_at_1024:
  "calculate_retry_delay 1024 = Inl OverflowError
   \<and> min (RETRY_DELAY_BASE * 2 ^ 1024) RETRY_DELAY_MAX = 10
   \<and> fst (make_request ''KEY'' always_503 ''https://eodhd.com/api/eod/AAPL.US'' 30 1025)
       = Inl OverflowError"
proof -
  have "fst (attempts (always_503 U 30) U 1025 None [0..<1026] []) = Inl OverflowError" for U
    by (rule attempts_overflow[where m="''Server error 503 Service Unavailable''"])
       (simp_all add: always_503_def try_body_def on_response_def response_503_def is_success_def)
  moreover have "nat (1025 + 1) = 1026" by simp
  moreover have "(10::real) \<le> 2 ^ 1024"
  proof -
    have "(10::real) \<le> 2 ^ 4" by simp
    also have "\<dots> \<le> 2 ^ 1024" by (rule power_increasing) simp_all
    finally show ?thesis .
  qed
  ultimately show ?thesis
    by (simp add: make_request_def Let_def calculate_retry_delay_def RETRY_DELAY_BASE_def
        RETRY_DELAY_MAX_def min_def)
qed

lemma make_request_client_error_no_retry:
  assumes "send a = Responds r" and "400 \<le> status_code r" and "status_code r < 500"
    and "status_code r \<noteq> 429"
  shows "attempts send url retries lst (a # rest) trace
     = (Inr (error_dict (''HTTP '' @ str_nat (status_code r) @ '': '' @ status_error r)),
        trace @ [RateLimit, HttpGet url])"
  using assms by (simp add: try_body_def on_response_def is_success_def)

lemma make_request_transient_retry_delay:
  assumes "send a = Raises (TimeoutException m) \<or> send a = Raises (RequestError m)
     \<or> (\<exists>r. send a = Responds r \<and> 500 \<le> status_code r \<and> status_error r = m)"
    and "int a < retries" and "a < 1024"
  shows "attempts send url retries lst (a # rest) trace
     = attempts send url retries (Some m) rest
         (trace @ [RateLimit, HttpGet url, Sleep (min (RETRY_DELAY_BASE * 2 ^ a) RETRY_DELAY_MAX)])"
proof -
  have "\<exists>e. try_body (send a) = (Raise e, []) \<and> handler e = (None, m)"
    using assms(1) by (intro try_body_transient) (auto simp: is_success_def)
  then show ?thesis using assms(2,3)
    by (simp add: attempts_transient calculate_retry_delay_def del: attempts.simps)
qed

lemma retry_delays_0_to_4:
  "map calculate_retry_delay [0, 1, 2, 3, 4] = [Inr 1, Inr 2, Inr 4, Inr 8, Inr 10]"
  by (simp add: calculate_retry_delay_def RETRY_DELAY_BASE_def RETRY_DELAY_MAX_def)

subsection \<open>Distributed cache\<close>

lemma RedisCache_get_failure_falls_back:
  "RedisCache_get c sha256 loads now key (Fails e)
     = fallback_get c now (make_key c (hash_key sha256 key))"
  by (simp add: RedisCache_get_def Let_def)

lemma RedisCache_set_failure_falls_back:
  assumes "dumps val = Some s"
  shows "RedisCache_set c sha256 dumps now key val ttl (Fails e)
     = fallback_set c now (make_key c (hash_key sha256 key)) val
         (case ttl of None \<Rightarrow> redis_default_ttl c
          | Some t \<Rightarrow> if t = 0 then redis_default_ttl c else t)"
  using assms by (simp add: RedisCache_set_def Let_def)

lemma RedisCache_exists_failure_falls_back:
  assumes "is_connected c" and "client c"
  shows "RedisCache_exists c sha256 now key (Fails e)
     = (map_of (fallback_cache c) (make_key c (hash_key sha256 key)) \<noteq> None, c)"
  using assms by (simp add: RedisCache_exists_def Let_def)

lemma RedisCache_delete_failure_no_fallback:
  assumes "is_connected c" and "client c"
  shows "RedisCache_delete c sha256 key (Fails e) = (False, c)"
  using assms by (simp add: RedisCache_delete_def Let_def)

lemma RedisCache_clear_prefix_failure_no_fallback:
  assumes "is_connected c" and "client c"
  shows "RedisCache_clear_prefix c pfx (Fails e) del = (0, c)"
    and "keys \<noteq> [] \<Longrightarrow> RedisCache_clear_prefix c pfx (Reply keys) (Fails e) = (0, c)"
  using assms by (simp_all add: RedisCache_clear_prefix_def Let_def)

text \<open>
  Claim C2. The claim says that every operation whose remote call fails falls back to the
  in-process store, and that a failed \<^verbatim>\<open>delete\<close> or \<^verbatim>\<open>clear_prefix\<close> still removes the
  keys there. \<^verbatim>\<open>get\<close>, \<^verbatim>\<open>set\<close> and \<^verbatim>\<open>exists\<close> do fall back (the lemmas above);
  \<^verbatim>\<open>delete\<close> and \<^verbatim>\<open>clear_prefix\<close> return \<^verbatim>\<open>False\<close> and 0 and leave the fallback store
  as it was. On a connected cache whose remote store refuses every call: a set puts the
  value in the fallback store, the delete and the clearing of its prefix leave it there,
  and a later get still returns it.
\<close>

theorem RedisCache_delete_failure_keeps_fallback_entry:
  "map_of (fallback_cache stale_cache) ''eodhd:quote:AAPL''
     = Some (JDict [(''close'', JNum 185)], 300)
   \<and> RedisCache_delete stale_cache id ''quote:AAPL'' (Fails ''Connection refused'')
       = (False, stale_cache)
   \<and> RedisCache_clear_prefix stale_cache ''quote:'' (Fails ''Connection refused'') del
       = (0, stale_cache)
   \<and> fst (RedisCache_get stale_cache id loads 1 ''quote:AAPL'' (Fails ''Connection refused''))
       = Some (JDict [(''close'', JNum 185)])"
  by (simp add: stale_cache_def connected_cache_def dumps_fixed_def RedisCache_set_def
      RedisCache_delete_def RedisCache_clear_prefix_def RedisCache_get_def fallback_set_def
      fallback_get_def make_key_def hash_key_def Let_def)

subsection \<open>Batch processing\<close>

lemma success_ids_simps [simp]:
  "success_ids [] = []"
  "success_ids (Inl e # rs) = success_ids rs"
  "success_ids (Inr (i, d) # rs) = (if counts_as_success d then i # success_ids rs else success_ids rs)"
  by (simp_all add: success_ids_def)

lemma succeeded_simps [simp]:
  "succeeded (Inl e) = False"
  "succeeded (Inr (i, d)) = counts_as_success d"
  by (simp_all add: succeeded_def)























text \<open>
  The two cases the amended claim leaves aside. A payload that is a dictionary with an
  empty \<^verbatim>\<open>"error"\<close> text, which is what \<^verbatim>\<open>make_request\<close> returns after failures whose
  text is empty, is put among the successes; the outcome of a cancelled task is put
  nowhere.
\<close>

lemma process_counts_empty_error_text_as_success:
  "process str_unused str_unused empty_error_request [quote_item ''AAPL.US'']
        quotes_url_builder
     = Inr \<lparr>results = [(''AAPL.US'', JDict [(''error'', JStr [])])],
            count = 1, total = 1, errors = None\<rparr>"
  by (simp add: process_def quote_item_def quotes_url_builder_def identifier_of_def Let_def
      gather_def fetch_with_semaphore_def empty_error_request_def aggregate_def
      counts_as_success_def upt_rec)

lemma process_passes_over_cancelled_task:
  "process str_unused str_unused second_cancelled
        [quote_item ''AAPL.US'', quote_item ''MSFT.US'', quote_item ''IBM.US''] quotes_url_builder
     = Inr \<lparr>results = [(''AAPL.US'', JDict [(''close'', JNum 185)]),
                       (''IBM.US'', JDict [(''close'', JNum 185)])],
            count = 2, total = 3, errors = None\<rparr>"
  by (simp add: process_def quote_item_def quotes_url_builder_def identifier_of_def Let_def
      gather_def fetch_with_semaphore_def second_cancelled_def aggregate_def
      counts_as_success_def upt_rec)

subsection \<open>Token validation\<close>

lemma get_cached_fields:
  "introspection_url (snd (get_cached v ck now token)) = introspection_url v"
  "cache_ttl (snd (get_cached v ck now token)) = cache_ttl v"
  by (simp_all add: get_cached_def Let_def split: option.splits)

lemma get_cached_miss:
  assumes "fst (get_cached v ck now token) = None"
  shows "token_cache (snd (get_cached v ck now token)) (ck token) = None"
  using assms by (auto simp: get_cached_def Let_def split: option.splits if_splits)

lemma get_cached_hit:
  assumes "token_cache v (ck token) = Some (info, cached_at)"
    and "now - cached_at < real_of_int (cache_ttl v)"
  shows "get_cached v ck now token = (Some info, v)"
  using assms by (simp add: get_cached_def Let_def)

text \<open>
  A validator without introspection URL and with an empty cache: the token is accepted
  with full access, and the cache has no entry for it afterwards.
\<close>

theorem validate_token_dev_fallback_counterexample:
  "fst (validate_token development_validator key32 inactive_answer 0 0 ''abc'')
     = \<lparr>active = True, subject = None, client_id = None, scopes = [''full-access''],
        expires_at = None, issued_at = None\<rparr>
   \<and> token_cache (snd (validate_token development_validator key32 inactive_answer 0 0 ''abc''))
        (key32 ''abc'') = None"
  by (simp add: validate_token_def get_cached_def development_validator_def Let_def
      TokenInfo_default_def)

text \<open>
  Claim C5 (amended). On a token for which the cache holds no entry younger than the
  TTL: with an introspection URL configured, the info made from the introspection answer
  is returned and stored under the hash of the token with the time of storing, whether
  it is active or not, and a validation of the same token less than \<^verbatim>\<open>cache_ttl\<close>
  seconds after that time returns the stored info and leaves the validator as it is,
  whatever the introspection endpoint would answer; without an introspection URL the
  token is accepted with full access and nothing is stored for it.
\<close>

theorem validate_token_caches_introspection_results:
  assumes "fst (get_cached v cache_key now token) = None"
  shows "(introspection_url v \<noteq> [] \<longrightarrow>
            fst (validate_token v cache_key out now stored_at token) = introspect_token out
          \<and> token_cache (snd (validate_token v cache_key out now stored_at token)) (cache_key token)
              = Some (introspect_token out, stored_at)
          \<and> (\<forall>later later' out'. later - stored_at < real_of_int (cache_ttl v) \<longrightarrow>
                validate_token (snd (validate_token v cache_key out now stored_at token))
                    cache_key out' later later' token
                  = (introspect_token out, snd (validate_token v cache_key out now stored_at token))))
       \<and> (introspection_url v = [] \<longrightarrow>
            fst (validate_token v cache_key out now stored_at token)
              = TokenInfo_default\<lparr>active := True, scopes := [''full-access'']\<rparr>
          \<and> token_cache (snd (validate_token v cache_key out now stored_at token)) (cache_key token)
              = None)"
proof -
  obtain v0 where g: "get_cached v cache_key now token = (None, v0)"
    using assms by (cases "get_cached v cache_key now token") simp
  have f: "introspection_url v0 = introspection_url v" "cache_ttl v0 = cache_ttl v"
    using get_cached_fields[of v cache_key now token] g by simp_all
  have m: "token_cache v0 (cache_key token) = None"
    using get_cached_miss[OF assms] g by simp
  show ?thesis
  proof (intro conjI impI allI)
    assume u: "introspection_url v \<noteq> []"
    let ?v1 = "set_cached v0 cache_key stored_at token (introspect_token out)"
    have vt: "validate_token v cache_key out now stored_at token = (introspect_token out, ?v1)"
      using g f u by (simp add: validate_token_def Let_def)
    show "fst (validate_token v cache_key out now stored_at token) = introspect_token out"
      using vt by simp
    show "token_cache (snd (validate_token v cache_key out now stored_at token)) (cache_key token)
              = Some (introspect_token out, stored_at)"
      using vt by (simp add: set_cached_def)
    fix later later' :: real and out'
    assume l: "later - stored_at < real_of_int (cache_ttl v)"
    have "token_cache ?v1 (cache_key token) = Some (introspect_token out, stored_at)"
      by (simp add: set_cached_def)
    moreover have "later - stored_at < real_of_int (cache_ttl ?v1)"
      using l f by (simp add: set_cached_def)
    ultimately have "get_cached ?v1 cache_key later token = (Some (introspect_token out), ?v1)"
      by (rule get_cached_hit)
    then show "validate_token (snd (validate_token v cache_key out now stored_at token))
                    cache_key out' later later' token
                  = (introspect_token out, snd (validate_token v cache_key out now stored_at token))"
      using vt by (simp add: validate_token_def)
  next
    assume u: "introspection_url v = []"
    have vt: "validate_token v cache_key out now stored_at token
        = (TokenInfo_default\<lparr>active := True, scopes := [''full-access'']\<rparr>, v0)"
      using g f u by (simp add: validate_token_def)
    show "fst (validate_token v cache_key out now stored_at token)
              = TokenInfo_default\<lparr>active := True, scopes := [''full-access'']\<rparr>"
      using vt by simp
    show "token_cache (snd (validate_token v cache_key out now stored_at token)) (cache_key token)
              = None"
      using vt m by simp
  qed
qed

theorem validate_token_caches_introspection_results_witness:
  "fst (get_cached introspecting_validator key32 0 ''abc'') = None
   \<and> introspection_url introspecting_validator \<noteq> []
   \<and> \<not> active (introspect_token inactive_answer)
   \<and> token_cache (snd (validate_token introspecting_validator key32 inactive_answer 0 1 ''abc''))
        (key32 ''abc'') = Some (introspect_token inactive_answer, 1)
   \<and> (200::real) - 1 < real_of_int (cache_ttl introspecting_validator)
   \<and> fst (validate_token
          (snd (validate_token introspecting_validator key32 inactive_answer 0 1 ''abc''))
          key32 (IntrospectionRaises ''down'') 200 201 ''abc'') = introspect_token inactive_answer
   \<and> fst (get_cached development_validator key32 0 ''abc'') = None
   \<and> introspection_url development_validator = []
   \<and> token_cache (snd (validate_token development_validator key32 inactive_answer 0 1 ''abc''))
        (key32 ''abc'') = None"
proof -
  have g1: "fst (get_cached introspecting_validator key32 0 ''abc'') = None"
    by (simp add: get_cached_def introspecting_validator_def Let_def)
  have g2: "fst (get_cached development_validator key32 0 ''abc'') = None"
    by (simp add: get_cached_def development_validator_def Let_def)
  have u1: "introspection_url introspecting_validator \<noteq> []"
    by (simp add: introspecting_validator_def)
  have u2: "introspection_url development_validator = []"
    by (simp add: development_validator_def)
  have t: "(200::real) - 1 < real_of_int (cache_ttl introspecting_validator)"
    by (simp add: introspecting_validator_def)
  have na: "\<not> active (introspect_token inactive_answer)"
    by (simp add: introspect_token_def inactive_answer_def)
  note a = validate_token_caches_introspection_results [OF g1, of inactive_answer 1]
  note b = validate_token_caches_introspection_results [OF g2, of inactive_answer 1]
  from a u1 have a1: "token_cache (snd (validate_token introspecting_validator key32
        inactive_answer 0 1 ''abc'')) (key32 ''abc'') = Some (introspect_token inactive_answer, 1)"
    by blast
  from a u1 t have a2: "validate_token
          (snd (validate_token introspecting_validator key32 inactive_answer 0 1 ''abc''))
          key32 (IntrospectionRaises ''down'') 200 201 ''abc''
      = (introspect_token inactive_answer,
         snd (validate_token introspecting_validator key32 inactive_answer 0 1 ''abc''))"
    by blast
  from b u2 have b1: "token_cache (snd (validate_token development_validator key32
        inactive_answer 0 1 ''abc'')) (key32 ''abc'') = None"
    by blast
  show ?thesis using g1 g2 u1 u2 t na a1 a2 b1 by simp
qed

subsection \<open>Authentication\<close>

lemma extract_bearer_abc: "extract_bearer_token (Some ''Bearer abc'') = Some ''abc''"
  by code_simp

lemma validate_inactive:
  "validate_token introspecting_validator key32 inactive_answer 0 0 ''abc''
     = (introspect_token inactive_answer,
        set_cached introspecting_validator key32 0 ''abc'' (introspect_token inactive_answer))"
  by (simp add: validate_token_def get_cached_def introspecting_validator_def Let_def set_cached_def)

lemma inactive_info: "\<not> active (introspect_token inactive_answer)"
  by (simp add: introspect_token_def inactive_answer_def)

text \<open>
  Claim C4. Over a transport other than stdio, when the header yields a bearer token and
  the info the validator returns for it is inactive, or its expiry time has passed when
  \<^verbatim>\<open>is_expired\<close> reads the clock, the result is the failure \<^verbatim>\<open>invalid_token\<close> with
  \<^verbatim>\<open>authenticated = False\<close>, whatever the other arguments are.
\<close>

theorem authenticate_rejects_inactive_or_expired:
  assumes "transport \<noteq> ''stdio''"
    and "extract_bearer_token authorization_header = Some bearer_token" and "bearer_token \<noteq> []"
    and "validate_token v cache_key introspected now stored_at bearer_token = (token_info, v')"
    and "\<not> active token_info \<or> is_expired token_info checked_at"
  shows "fst (authenticate m EODHD_API_KEY v cache_key introspected now stored_at checked_at
            user_api_out authorization_header api_token_param transport)
     = \<lparr>authenticated = False, user_id = None, auth_method = None, auth_scopes = [],
        error = Some ''invalid_token'',
        error_description = Some ''Token is invalid or expired''\<rparr>"
  using assms by (auto simp: authenticate_def AuthResult_default_def)

theorem authenticate_rejects_inactive_or_expired_witness:
  "''http'' \<noteq> ''stdio''
   \<and> extract_bearer_token (Some ''Bearer abc'') = Some ''abc'' \<and> ''abc'' \<noteq> []
   \<and> validate_token introspecting_validator key32 inactive_answer 0 0 ''abc''
       = (introspect_token inactive_answer,
          set_cached introspecting_validator key32 0 ''abc'' (introspect_token inactive_answer))
   \<and> \<not> active (introspect_token inactive_answer)
   \<and> fst (authenticate default_middleware (Some ''ENVKEY'') introspecting_validator key32
        inactive_answer 0 0 0 accepting_user_api (Some ''Bearer abc'') None ''http'')
      = \<lparr>authenticated = False, user_id = None, auth_method = None, auth_scopes = [],
         error = Some ''invalid_token'',
         error_description = Some ''Token is invalid or expired''\<rparr>"
proof -
  have t: "''http'' \<noteq> ''stdio''" by simp
  have n: "''abc'' \<noteq> []" by simp
  have d: "\<not> active (introspect_token inactive_answer)
      \<or> is_expired (introspect_token inactive_answer) 0"
    using inactive_info by simp
  show ?thesis
    using authenticate_rejects_inactive_or_expired [OF t extract_bearer_abc n validate_inactive d,
        of default_middleware "Some ''ENVKEY''" accepting_user_api None]
      extract_bearer_abc validate_inactive inactive_info
    by simp
qed

text \<open>
  Claim C9. Over a transport other than stdio, when the header yields a bearer token and
  a legacy \<^verbatim>\<open>api_token\<close> is given as well, the result is the one of the same call without
  the legacy token and with any other answer of the user endpoint: the legacy key is not
  consulted. The result has method \<^verbatim>\<open>oauth\<close> when the token's info is active and not
  expired, and is the failure \<^verbatim>\<open>invalid_token\<close> otherwise.
\<close>

theorem authenticate_bearer_before_legacy:
  assumes "transport \<noteq> ''stdio''"
    and "extract_bearer_token authorization_header = Some bearer_token" and "bearer_token \<noteq> []"
    and "validate_token v cache_key introspected now stored_at bearer_token = (token_info, v')"
  shows "authenticate m EODHD_API_KEY v cache_key introspected now stored_at checked_at
            user_api_out authorization_header (Some api_token) transport
       = authenticate m EODHD_API_KEY v cache_key introspected now stored_at checked_at
            user_api_out' authorization_header None transport
    \<and> (active token_info \<and> \<not> is_expired token_info checked_at \<longrightarrow>
         fst (authenticate m EODHD_API_KEY v cache_key introspected now stored_at checked_at
            user_api_out authorization_header (Some api_token) transport)
          = \<lparr>authenticated = True, user_id = subject token_info, auth_method = Some ''oauth'',
             auth_scopes = scopes token_info, error = None, error_description = None\<rparr>)
    \<and> (\<not> (active token_info \<and> \<not> is_expired token_info checked_at) \<longrightarrow>
         fst (authenticate m EODHD_API_KEY v cache_key introspected now stored_at checked_at
            user_api_out authorization_header (Some api_token) transport)
          = \<lparr>authenticated = False, user_id = None, auth_method = None, auth_scopes = [],
             error = Some ''invalid_token'',
             error_description = Some ''Token is invalid or expired''\<rparr>)"
  using assms by (auto simp: authenticate_def AuthResult_default_def)

theorem authenticate_bearer_before_legacy_witness:
  "''http'' \<noteq> ''stdio''
   \<and> extract_bearer_token (Some ''Bearer abc'') = Some ''abc'' \<and> ''abc'' \<noteq> []
   \<and> fst (authenticate default_middleware (Some ''ENVKEY'') introspecting_validator key32
        inactive_answer 0 0 0 accepting_user_api (Some ''Bearer abc'') (Some ''legacy-key'') ''http'')
      = \<lparr>authenticated = False, user_id = None, auth_method = None, auth_scopes = [],
         error = Some ''invalid_token'',
         error_description = Some ''Token is invalid or expired''\<rparr>
   \<and> fst (authenticate default_middleware (Some ''ENVKEY'') introspecting_validator key32
        inactive_answer 0 0 0 accepting_user_api None (Some ''legacy-key'') ''http'')
      = \<lparr>authenticated = True, user_id = Some ''42'', auth_method = Some ''api_key'',
         auth_scopes = [''full-access''], error = None, error_description = None\<rparr>"
proof -
  have t: "''http'' \<noteq> ''stdio''" by simp
  have n: "''abc'' \<noteq> []" by simp
  have l: "fst (authenticate default_middleware (Some ''ENVKEY'') introspecting_validator key32
        inactive_answer 0 0 0 accepting_user_api None (Some ''legacy-key'') ''http'')
      = \<lparr>authenticated = True, user_id = Some ''42'', auth_method = Some ''api_key'',
         auth_scopes = [''full-access''], error = None, error_description = None\<rparr>"
    by (simp add: authenticate_def extract_bearer_token_def legacy_or_env_def
        default_middleware_def truthy_str_def validate_legacy_api_key_def accepting_user_api_def
        AuthResult_default_def)
  have r: "fst (authenticate default_middleware (Some ''ENVKEY'') introspecting_validator key32
        inactive_answer 0 0 0 accepting_user_api (Some ''Bearer abc'') (Some ''legacy-key'') ''http'')
      = \<lparr>authenticated = False, user_id = None, auth_method = None, auth_scopes = [],
         error = Some ''invalid_token'',
         error_description = Some ''Token is invalid or expired''\<rparr>"
    using authenticate_bearer_before_legacy [OF t extract_bearer_abc n validate_inactive,
        of default_middleware "Some ''ENVKEY''" 0 accepting_user_api "''legacy-key''"
           accepting_user_api, THEN conjunct2, THEN conjunct2]
      inactive_info
    by simp
  show ?thesis using t extract_bearer_abc n r l by simp
qed

end
